theory Spec2Isabelle
  imports Main "HOL-Library.Word"
begin

section \<open>Go values used by \<open>linalg/lapack/syevd.go\<close>\<close>

text \<open>
  Go's \<open>int\<close> is a machine integer of 32 or 64 bits; the model takes the 64 bits of the
  64-bit platforms.  Arithmetic wraps around, comparisons are signed (\<open>sint\<close>).
\<close>

type_synonym go_int = "64 word"

definition lt :: "go_int \<Rightarrow> go_int \<Rightarrow> bool" where
  "lt a b = (sint a < sint b)"

text \<open>
  Modelled from the spec: \<open>max\<close> on two ints is not defined in the file (a helper of
  the package when it was written, a builtin of later Go); the spec and the doc comment
  of \<open>Syevd\<close> use it as the larger of two ints.
\<close>

definition max_int :: "go_int \<Rightarrow> go_int \<Rightarrow> go_int" where
  "max_int a b = (if lt a b then b else a)"

text \<open>An \<open>error\<close> made by \<open>errors.New\<close> is its message.\<close>

datatype error = errors_New string

text \<open>A call of \<open>Syevd\<close> returns an \<open>error\<close> (\<open>nil\<close> is \<open>None\<close>) or panics.\<close>

datatype outcome = Return "error option" | Panic

text \<open>
  Backing stores live in a heap of arrays.  A matrix holds the address of the array its
  \<open>FloatArray()\<close> slice covers; two matrices may share one array.  The element type
  \<open>'e\<close> (Go's \<open>float64\<close>) is never inspected by \<open>Syevd\<close>.
\<close>

type_synonym addr = nat
type_synonym 'e heap = "addr \<Rightarrow> 'e list"

text \<open>
  The interface \<open>matrix.Matrix\<close>, as far as \<open>Syevd\<close> observes it: the results of the
  methods \<open>Rows()\<close>, \<open>Cols()\<close>, \<open>NumElements()\<close>, \<open>FloatArray()\<close> and the dynamic
  type the type switch looks at.  The package \<open>matrix\<close> is not part of the file, so
  nothing ties the element count to the length of the array; \<open>OtherMatrix\<close> stands for
  every type that is neither \<open>*matrix.FloatMatrix\<close> nor \<open>*matrix.ComplexMatrix\<close>.
  Both arguments are values of the interface, not \<open>nil\<close>.
\<close>

datatype matrix_type = FloatMatrix | ComplexMatrix | OtherMatrix

record Matrix =
  Rows :: go_int
  Cols :: go_int
  NumElements :: go_int
  FloatArray :: addr
  dyn_type :: matrix_type

text \<open>
  The element count of a matrix buffer.  The buffer is a Go slice of \<open>float64\<close> (of
  \<open>complex128\<close> for a complex matrix), eight bytes or more an element, and the size of a
  slice in bytes is an \<open>int\<close>: the count is not negative, and eight times the count
  is below \<open>2^63\<close>.
\<close>

definition buffer_count :: "go_int \<Rightarrow> bool" where
  "buffer_count c = (0 \<le> sint c \<and> 8 * sint c < 2 ^ 63)"

text \<open>The fields of \<open>linalg.IndexOpts\<close> that \<open>Syevd\<close> reads and writes.\<close>

record IndexOpts =
  N :: go_int
  LDa :: go_int
  OffsetA :: go_int
  OffsetW :: go_int

text \<open>
  Modelled from the spec: the parameter values of package \<open>linalg\<close> and
  \<open>linalg.ParamString\<close> are not part of the file.  The doc comment of \<open>Syevd\<close> names
  \<open>PJobNo\<close>, \<open>PJobV\<close>, \<open>PLower\<close>, \<open>PUpper\<close>; the spec gives the kernel's codes
  \<open>'N'\<close>, \<open>'V'\<close>, \<open>'L'\<close>, \<open>'U'\<close>.
\<close>

datatype ParamValue = PJobNo | PJobV | PLower | PUpper

record Parameters =
  Jobz :: ParamValue
  Uplo :: ParamValue

fun ParamString :: "ParamValue \<Rightarrow> string" where
  "ParamString PJobNo = ''N''"
| "ParamString PJobV = ''V''"
| "ParamString PLower = ''L''"
| "ParamString PUpper = ''U''"

text \<open>
  A slice \<open>xs[off:]\<close> of the array at address \<open>a\<close> is the window starting at \<open>off\<close>; it
  shares the array.  Go panics when \<open>off\<close> is negative or beyond the length.
\<close>

type_synonym window = "addr \<times> nat"

definition slice_from :: "'e heap \<Rightarrow> addr \<Rightarrow> go_int \<Rightarrow> window option" where
  "slice_from h a off =
     (if sint off < 0 \<or> int (length (h a)) < sint off then None
      else Some (a, nat (sint off)))"

definition window_contents :: "'e heap \<Rightarrow> window \<Rightarrow> 'e list" where
  "window_contents h w = drop (snd w) (h (fst w))"

text \<open>
  The external kernel \<open>dsyevd(jobz, uplo, n, A, lda, W)\<close> is a parameter of the model: it
  gets the two windows and the heap, and yields its status and the heap it leaves.
\<close>

type_synonym kernel_call = "string \<times> string \<times> go_int \<times> window \<times> go_int \<times> window"
type_synonym 'e kernel =
  "string \<Rightarrow> string \<Rightarrow> go_int \<Rightarrow> window \<Rightarrow> go_int \<Rightarrow> window \<Rightarrow> 'e heap \<Rightarrow> go_int \<times> 'e heap"

text \<open>What a call of \<open>Syevd\<close> leaves: its outcome, the heap, and the kernel calls it made.\<close>

record 'e exit =
  returned :: outcome
  heap_after :: "'e heap"
  dsyevd_calls :: "kernel_call list"

section \<open>\<open>Syevd\<close>\<close>

text \<open>
  Each check either ends the call (\<open>Inl\<close> the outcome) or hands the index options on
  (\<open>Inr\<close>).
\<close>

definition and_then :: "'x + 'a \<Rightarrow> ('a \<Rightarrow> 'x + 'b) \<Rightarrow> 'x + 'b" where
  "and_then r f = (case r of Inl x \<Rightarrow> Inl x | Inr a \<Rightarrow> f a)"

text \<open>Lines 51--56.\<close>

definition defaultN :: "Matrix \<Rightarrow> IndexOpts \<Rightarrow> outcome + IndexOpts" where
  "defaultN A ind =
     (if lt (N ind) 0 then
        (let ind = ind\<lparr>N := Rows A\<rparr> in
         if N ind \<noteq> Cols A then Inl (Return (Some (errors_New ''A not square'')))
         else Inr ind)
      else Inr ind)"

text \<open>Lines 57--59.\<close>

definition returnIfEmpty :: "IndexOpts \<Rightarrow> outcome + IndexOpts" where
  "returnIfEmpty ind = (if N ind = 0 then Inl (Return None) else Inr ind)"

text \<open>Lines 60--62.\<close>

definition defaultLDa :: "Matrix \<Rightarrow> IndexOpts \<Rightarrow> IndexOpts" where
  "defaultLDa A ind = (if LDa ind = 0 then ind\<lparr>LDa := max_int 1 (Rows A)\<rparr> else ind)"

text \<open>Lines 63--65.\<close>

definition checkLDa :: "IndexOpts \<Rightarrow> outcome + IndexOpts" where
  "checkLDa ind =
     (if lt (LDa ind) (max_int 1 (N ind)) then Inl (Return (Some (errors_New ''lda'')))
      else Inr ind)"

text \<open>Lines 66--68.\<close>

definition checkOffsetA :: "IndexOpts \<Rightarrow> outcome + IndexOpts" where
  "checkOffsetA ind =
     (if lt (OffsetA ind) 0 then Inl (Return (Some (errors_New ''offsetA'')))
      else Inr ind)"

text \<open>Lines 69--72.\<close>

definition checkSizeA :: "Matrix \<Rightarrow> IndexOpts \<Rightarrow> outcome + IndexOpts" where
  "checkSizeA A ind =
     (let sizeA = NumElements A in
      if lt sizeA (OffsetA ind + (N ind - 1) * LDa ind + N ind)
      then Inl (Return (Some (errors_New ''sizeA'')))
      else Inr ind)"

text \<open>Lines 74--76.\<close>

definition checkOffsetW :: "IndexOpts \<Rightarrow> outcome + IndexOpts" where
  "checkOffsetW ind =
     (if lt (OffsetW ind) 0 then Inl (Return (Some (errors_New ''offsetW'')))
      else Inr ind)"

text \<open>Lines 77--80.\<close>

definition checkSizeW :: "Matrix \<Rightarrow> IndexOpts \<Rightarrow> outcome + IndexOpts" where
  "checkSizeW W ind =
     (let sizeW = NumElements W in
      if lt sizeW (OffsetW ind + N ind) then Inl (Return (Some (errors_New ''sizeW'')))
      else Inr ind)"

text \<open>
  The index options with which the call arrives at line 63, 66, 69, 74, 77 and 82, or the
  outcome with which it ended before.
\<close>

definition reach_LDa_check :: "Matrix \<Rightarrow> IndexOpts \<Rightarrow> outcome + IndexOpts" where
  "reach_LDa_check A ind =
     and_then (and_then (defaultN A ind) returnIfEmpty) (\<lambda>ind. Inr (defaultLDa A ind))"

definition reach_offsetA_check :: "Matrix \<Rightarrow> IndexOpts \<Rightarrow> outcome + IndexOpts" where
  "reach_offsetA_check A ind = and_then (reach_LDa_check A ind) checkLDa"

definition reach_sizeA_check :: "Matrix \<Rightarrow> IndexOpts \<Rightarrow> outcome + IndexOpts" where
  "reach_sizeA_check A ind = and_then (reach_offsetA_check A ind) checkOffsetA"

definition reach_offsetW_check :: "Matrix \<Rightarrow> IndexOpts \<Rightarrow> outcome + IndexOpts" where
  "reach_offsetW_check A ind = and_then (reach_sizeA_check A ind) (checkSizeA A)"

definition reach_sizeW_check :: "Matrix \<Rightarrow> IndexOpts \<Rightarrow> outcome + IndexOpts" where
  "reach_sizeW_check A ind = and_then (reach_offsetW_check A ind) checkOffsetW"

definition reach_dispatch :: "Matrix \<Rightarrow> Matrix \<Rightarrow> IndexOpts \<Rightarrow> outcome + IndexOpts" where
  "reach_dispatch A W ind = and_then (reach_sizeW_check A ind) (checkSizeW W)"

text \<open>Lines 82--96: the type switch, the kernel call and the mapping of its status.\<close>

definition dispatch ::
  "'e kernel \<Rightarrow> Parameters \<Rightarrow> IndexOpts \<Rightarrow> Matrix \<Rightarrow> Matrix \<Rightarrow> 'e heap \<Rightarrow> 'e exit" where
  "dispatch dsyevd pars ind A W h =
     (case dyn_type A of
        FloatMatrix \<Rightarrow>
          (let jobz = ParamString (Jobz pars);
               uplo = ParamString (Uplo pars);
               Aa = FloatArray A;
               Wa = FloatArray W
           in case slice_from h Aa (OffsetA ind) of
                None \<Rightarrow> \<lparr>returned = Panic, heap_after = h, dsyevd_calls = []\<rparr>
              | Some wa \<Rightarrow>
                  (case slice_from h Wa (OffsetW ind) of
                     None \<Rightarrow> \<lparr>returned = Panic, heap_after = h, dsyevd_calls = []\<rparr>
                   | Some ww \<Rightarrow>
                       (case dsyevd jobz uplo (N ind) wa (LDa ind) ww h of
                          (info, h') \<Rightarrow>
                            \<lparr>returned =
                               (if info \<noteq> 0
                                then Return (Some (errors_New ''Syevd call error''))
                                else Return None),
                             heap_after = h',
                             dsyevd_calls = [(jobz, uplo, N ind, wa, LDa ind, ww)]\<rparr>)))
      | ComplexMatrix \<Rightarrow>
          \<lparr>returned = Return (Some (errors_New ''Not a complex function'')),
           heap_after = h, dsyevd_calls = []\<rparr>
      | OtherMatrix \<Rightarrow>
          \<lparr>returned = Return None, heap_after = h, dsyevd_calls = []\<rparr>)"

text \<open>
  \<open>Syevd(A, W, opts...)\<close>.  The functions \<open>linalg.GetParameters\<close> and
  \<open>linalg.GetIndexOpts\<close> are not part of the file: their results on \<open>opts\<close> are the
  arguments \<open>gp\<close> (an error or the parameters, lines 46--49) and \<open>ind\<close> (line 50).
\<close>

definition Syevd ::
  "'e kernel \<Rightarrow> error + Parameters \<Rightarrow> IndexOpts \<Rightarrow> Matrix \<Rightarrow> Matrix \<Rightarrow> 'e heap \<Rightarrow> 'e exit" where
  "Syevd dsyevd gp ind A W h =
     (case gp of
        Inl err \<Rightarrow> \<lparr>returned = Return (Some err), heap_after = h, dsyevd_calls = []\<rparr>
      | Inr pars \<Rightarrow>
          (case reach_dispatch A W ind of
             Inl out \<Rightarrow> \<lparr>returned = out, heap_after = h, dsyevd_calls = []\<rparr>
           | Inr ind' \<Rightarrow> dispatch dsyevd pars ind' A W h))"

section \<open>The kernel's contract\<close>

text \<open>
  The contract the spec states for the kernel: ``writes ascending eigenvalues into
  \<open>eigenvalueWindow[0:n]\<close>; returns \<open>0\<close> on success, nonzero otherwise''.  On status
  \<open>0\<close> the eigenvalue window it was given has at least \<open>n\<close> elements and its first
  \<open>n\<close> elements ascend in the order \<open>le\<close> (\<open><=\<close> on \<open>float64\<close>).
\<close>

definition kernel_contract :: "('e \<Rightarrow> 'e \<Rightarrow> bool) \<Rightarrow> 'e kernel \<Rightarrow> bool" where
  "kernel_contract le dsyevd =
     (\<forall>jobz uplo n wa lda ww h.
        case dsyevd jobz uplo n wa lda ww h of
          (info, h') \<Rightarrow>
            info = 0 \<longrightarrow>
              nat (sint n) \<le> length (window_contents h' ww) \<and>
              successively le (take (nat (sint n)) (window_contents h' ww)))"

text \<open>The status the kernel gives on a recorded call.\<close>

definition kernel_status :: "'e kernel \<Rightarrow> 'e heap \<Rightarrow> kernel_call \<Rightarrow> go_int" where
  "kernel_status dsyevd h c =
     (case c of (jobz, uplo, n, wa, lda, ww) \<Rightarrow> fst (dsyevd jobz uplo n wa lda ww h))"

section \<open>Concrete calls\<close>

text \<open>
  Two stand-ins for the kernel.  \<open>status_kernel info\<close> reports \<open>info\<close> and writes
  nothing.  \<open>diag_kernel\<close> is exact on diagonal matrices: it writes the sorted diagonal
  into the eigenvalue window, and reports \<open>1\<close> when a window is too short.
\<close>

definition status_kernel :: "go_int \<Rightarrow> 'e kernel" where
  "status_kernel info jobz uplo n wa lda ww h = (info, h)"

definition store_window :: "'e list \<Rightarrow> nat \<Rightarrow> 'e list \<Rightarrow> 'e list" where
  "store_window xs off d = take off xs @ d @ drop (off + length d) xs"

definition diag_kernel :: "('e::linorder) kernel" where
  "diag_kernel jobz uplo n wa lda ww h =
     (let k = nat (sint n);
          ld = nat (sint lda);
          a = window_contents h wa
      in if snd ww + k \<le> length (h (fst ww)) \<and> (k = 0 \<or> (k - 1) * ld + k \<le> length a)
         then (0, h(fst ww := store_window (h (fst ww)) (snd ww)
                                (sort (map (\<lambda>i. a ! (i * ld + i)) [0..<k]))))
         else (1, h))"

text \<open>
  A heap with \<open>diag(3, 1, 2)\<close> in column-major order at address 0, three cells for
  eigenvalues at address 1 and a \<open>2 \<times> 3\<close> matrix at address 3; every other array is
  empty, as the \<open>FloatArray()\<close> of an empty or a complex matrix is.
\<close>

definition example_heap :: "int heap" where
  "example_heap =
     (\<lambda>a. if a = 0 then [3, 0, 0, 0, 1, 0, 0, 0, 2]
          else if a = 1 then [0, 0, 0]
          else if a = 3 then [1, 2, 3, 4, 5, 6]
          else [])"

definition diag3 :: Matrix where
  "diag3 = \<lparr>Rows = 3, Cols = 3, NumElements = 9, FloatArray = 0, dyn_type = FloatMatrix\<rparr>"

definition vec3 :: Matrix where
  "vec3 = \<lparr>Rows = 3, Cols = 1, NumElements = 3, FloatArray = 1, dyn_type = FloatMatrix\<rparr>"

definition wide23 :: Matrix where
  "wide23 = \<lparr>Rows = 2, Cols = 3, NumElements = 6, FloatArray = 3, dyn_type = FloatMatrix\<rparr>"

definition flat03 :: Matrix where
  "flat03 = \<lparr>Rows = 0, Cols = 3, NumElements = 0, FloatArray = 2, dyn_type = FloatMatrix\<rparr>"

definition empty_real :: Matrix where
  "empty_real = \<lparr>Rows = 0, Cols = 0, NumElements = 0, FloatArray = 2, dyn_type = FloatMatrix\<rparr>"

definition complex3 :: Matrix where
  "complex3 = \<lparr>Rows = 3, Cols = 3, NumElements = 9, FloatArray = 2, dyn_type = ComplexMatrix\<rparr>"

definition empty_complex :: Matrix where
  "empty_complex =
     \<lparr>Rows = 0, Cols = 0, NumElements = 0, FloatArray = 2, dyn_type = ComplexMatrix\<rparr>"

definition other3 :: Matrix where
  "other3 = \<lparr>Rows = 3, Cols = 3, NumElements = 9, FloatArray = 2, dyn_type = OtherMatrix\<rparr>"

text \<open>
  The options when the caller gives none: \<open>n\<close> negative and \<open>ldA\<close> zero stand for the
  defaults, the offsets are zero, \<open>jobz\<close> is \<open>PJobNo\<close> and \<open>uplo\<close> is \<open>PLower\<close> (doc
  comment of \<open>Syevd\<close>).
\<close>

definition default_ind :: IndexOpts where
  "default_ind = \<lparr>N = - 1, LDa = 0, OffsetA = 0, OffsetW = 0\<rparr>"

definition default_pars :: Parameters where
  "default_pars = \<lparr>Jobz = PJobNo, Uplo = PLower\<rparr>"

lemmas check_defs = and_then_def defaultN_def returnIfEmpty_def defaultLDa_def checkLDa_def
  checkOffsetA_def checkSizeA_def checkOffsetW_def checkSizeW_def lt_def max_int_def

lemmas reach_defs = reach_LDa_check_def reach_offsetA_check_def reach_sizeA_check_def
  reach_offsetW_check_def reach_sizeW_check_def reach_dispatch_def

lemmas example_defs = example_heap_def diag3_def vec3_def wide23_def flat03_def empty_real_def
  complex3_def empty_complex_def other3_def default_ind_def
  default_pars_def status_kernel_def

section \<open>Where the kernel is called\<close>

lemma dispatch_call_returned:
  "dsyevd_calls (dispatch k pars ind A W h) \<noteq> [] \<Longrightarrow>
     returned (dispatch k pars ind A W h) = Return None \<or>
     returned (dispatch k pars ind A W h) = Return (Some (errors_New ''Syevd call error''))"
  by (auto simp: dispatch_def Let_def split: matrix_type.splits option.splits prod.splits)

lemma dispatch_no_call_heap:
  "dsyevd_calls (dispatch k pars ind A W h) = [] \<Longrightarrow>
     heap_after (dispatch k pars ind A W h) = h"
  by (auto simp: dispatch_def Let_def split: matrix_type.splits option.splits prod.splits)

lemma Syevd_call_returned:
  "dsyevd_calls (Syevd k gp ind A W h) \<noteq> [] \<Longrightarrow>
     returned (Syevd k gp ind A W h) = Return None \<or>
     returned (Syevd k gp ind A W h) = Return (Some (errors_New ''Syevd call error''))"
  by (auto simp: Syevd_def dest: dispatch_call_returned split: sum.splits)

lemma Syevd_no_call_heap:
  "dsyevd_calls (Syevd k gp ind A W h) = [] \<Longrightarrow> heap_after (Syevd k gp ind A W h) = h"
  by (auto simp: Syevd_def dest: dispatch_no_call_heap split: sum.splits)

section \<open>Validation errors leave everything as it was\<close>

text \<open>
  Claim C1.  Whenever \<open>Syevd\<close> returns one of its validation errors (\<open>A not square\<close>,
  \<open>lda\<close>, \<open>offsetA\<close>, \<open>sizeA\<close>, \<open>offsetW\<close>, \<open>sizeW\<close>), it has not called the kernel and
  the heap, hence the backing store of the matrix and of the eigenvalue buffer, is the
  heap it was called with.
\<close>

theorem validation_error_fail_fast:
  assumes "returned (Syevd k gp ind A W h) = Return (Some (errors_New m))"
    and "m \<in> {''A not square'', ''lda'', ''offsetA'', ''sizeA'', ''offsetW'', ''sizeW''}"
  shows "dsyevd_calls (Syevd k gp ind A W h) = [] \<and> heap_after (Syevd k gp ind A W h) = h"
proof -
  have "dsyevd_calls (Syevd k gp ind A W h) = []"
  proof (rule ccontr)
    assume "dsyevd_calls (Syevd k gp ind A W h) \<noteq> []"
    from Syevd_call_returned [OF this] assms show False by auto
  qed
  then show ?thesis by (simp add: Syevd_no_call_heap)
qed

lemma wide23_not_square:
  "returned (Syevd diag_kernel (Inr default_pars) default_ind wide23 vec3 example_heap) =
     Return (Some (errors_New ''A not square''))"
  by (simp add: Syevd_def reach_defs check_defs wide23_def default_ind_def)

theorem validation_error_fail_fast_witness:
  "returned (Syevd diag_kernel (Inr default_pars) default_ind wide23 vec3 example_heap) =
     Return (Some (errors_New ''A not square'')) \<and>
   dsyevd_calls (Syevd diag_kernel (Inr default_pars) default_ind wide23 vec3 example_heap)
     = [] \<and>
   heap_after (Syevd diag_kernel (Inr default_pars) default_ind wide23 vec3 example_heap) =
     example_heap"
  using validation_error_fail_fast [OF wide23_not_square] wide23_not_square by simp

section \<open>The size check of the matrix buffer\<close>

text \<open>Signed arithmetic on non-negative ints is exact as long as the result fits.\<close>

lemma sint_add_exact:
  fixes a b :: go_int
  assumes "0 \<le> sint a" "0 \<le> sint b" "sint a + sint b < 2 ^ 63"
  shows "sint (a + b) = sint a + sint b"
proof -
  have "sint (a + b) = signed_take_bit 63 (sint a + sint b)"
    by (simp add: sint_word_ariths)
  also have "\<dots> = sint a + sint b"
    using assms by (intro signed_take_bit_int_eq_self) auto
  finally show ?thesis .
qed

lemma sint_mult_exact:
  fixes a b :: go_int
  assumes "0 \<le> sint a" "0 \<le> sint b" "sint a * sint b < 2 ^ 63"
  shows "sint (a * b) = sint a * sint b"
proof -
  have nonneg: "0 \<le> sint a * sint b" using assms by simp
  have "sint (a * b) = signed_take_bit 63 (sint a * sint b)"
    by (simp add: sint_word_ariths)
  also have "\<dots> = sint a * sint b"
    using assms(3) nonneg by (intro signed_take_bit_int_eq_self) auto
  finally show ?thesis .
qed

lemma sint_pred_exact:
  fixes n :: go_int
  assumes "1 \<le> sint n"
  shows "sint (n - 1) = sint n - 1"
proof -
  have "sint (n - 1) = signed_take_bit 63 (sint n - 1)"
    by (simp add: sint_word_ariths)
  also have "\<dots> = sint n - 1"
    using assms sint_lt [of n] by (intro signed_take_bit_int_eq_self) auto
  finally show ?thesis .
qed

lemma required_size_exact:
  fixes a n l :: go_int
  assumes a: "0 \<le> sint a" and n: "1 \<le> sint n" and l: "0 \<le> sint l"
    and fits: "sint a + (sint n - 1) * sint l + sint n < 2 ^ 63"
  shows "sint (a + (n - 1) * l + n) = sint a + (sint n - 1) * sint l + sint n"
proof -
  have p: "sint (n - 1) = sint n - 1" using n by (rule sint_pred_exact)
  have nonneg: "0 \<le> (sint n - 1) * sint l" using n l by simp
  have m: "sint ((n - 1) * l) = (sint n - 1) * sint l"
    using sint_mult_exact [of "n - 1" l] p n l nonneg fits a by simp
  have s: "sint (a + (n - 1) * l) = sint a + (sint n - 1) * sint l"
    using sint_add_exact [of a "(n - 1) * l"] m a nonneg fits n by simp
  show ?thesis
    using sint_add_exact [of "a + (n - 1) * l" n] s a nonneg fits n by simp
qed

lemma max_int_ge_1: "1 \<le> sint (max_int 1 n)"
  by (simp add: max_int_def lt_def)

lemma reach_sizeA_check_facts:
  assumes "reach_sizeA_check A ind = Inr ind'"
  shows "0 \<le> sint (OffsetA ind')" and "sint (max_int 1 (N ind')) \<le> sint (LDa ind')"
  using assms
  by (auto simp: reach_defs check_defs Let_def split: if_splits sum.splits)

lemma passed_sizeA_returned:
  assumes "reach_offsetW_check A ind = Inr ind'"
  shows "returned (Syevd k (Inr pars) ind A W h) \<noteq> Return (Some (errors_New ''sizeA''))"
  using assms
  by (auto simp: Syevd_def reach_dispatch_def reach_sizeW_check_def and_then_def
      checkOffsetW_def checkSizeW_def dispatch_def Let_def
      split: if_splits sum.splits matrix_type.splits option.splits prod.splits)

lemma buffer_count_below_max: "buffer_count c \<Longrightarrow> sint c < 2 ^ 63 - 1"
  by (simp add: buffer_count_def)

text \<open>
  Claim C2.  Let the call reach the size check of the matrix buffer (line 69) with order
  \<open>n \<ge> 1\<close>, the element count being that of a buffer.  If the element count is
  \<open>offsetA + (n-1)*ldA + n - 1\<close>, the check fails and \<open>Syevd\<close> returns the error
  \<open>sizeA\<close>, with no kernel call and the heap unchanged.  If the element count is
  \<open>offsetA + (n-1)*ldA + n\<close>, the check passes and \<open>Syevd\<close> does not return \<open>sizeA\<close>.
  The sums are those of the integers: the machine's sum of line 70 agrees with them,
  since it is at most one more than a buffer's count.
\<close>

theorem matrix_size_bound_inclusive:
  assumes reach: "reach_sizeA_check A ind = Inr ind'"
    and n: "1 \<le> sint (N ind')"
    and count: "buffer_count (NumElements A)"
  shows "(sint (NumElements A) =
            sint (OffsetA ind') + (sint (N ind') - 1) * sint (LDa ind') + sint (N ind') - 1
          \<longrightarrow>
            checkSizeA A ind' = Inl (Return (Some (errors_New ''sizeA''))) \<and>
            Syevd k (Inr pars) ind A W h =
              \<lparr>returned = Return (Some (errors_New ''sizeA'')), heap_after = h,
               dsyevd_calls = []\<rparr>)
       \<and> (sint (NumElements A) =
            sint (OffsetA ind') + (sint (N ind') - 1) * sint (LDa ind') + sint (N ind')
          \<longrightarrow>
            checkSizeA A ind' = Inr ind' \<and>
            returned (Syevd k (Inr pars) ind A W h) \<noteq>
              Return (Some (errors_New ''sizeA'')))"
proof (intro conjI impI)
  note a = reach_sizeA_check_facts(1) [OF reach]
  have l: "1 \<le> sint (LDa ind')"
    using reach_sizeA_check_facts(2) [OF reach] max_int_ge_1 [of "N ind'"] by linarith
  {
    assume short: "sint (NumElements A) =
        sint (OffsetA ind') + (sint (N ind') - 1) * sint (LDa ind') + sint (N ind') - 1"
    with buffer_count_below_max [OF count] have "sint (OffsetA ind') + (sint (N ind') - 1) * sint (LDa ind') + sint (N ind')
        < 2 ^ 63"
      by linarith
    with a n l have "sint (OffsetA ind' + (N ind' - 1) * LDa ind' + N ind') =
        sint (OffsetA ind') + (sint (N ind') - 1) * sint (LDa ind') + sint (N ind')"
      by (intro required_size_exact) auto
    with short show c: "checkSizeA A ind' = Inl (Return (Some (errors_New ''sizeA'')))"
      by (simp add: checkSizeA_def lt_def)
    have "reach_dispatch A W ind = Inl (Return (Some (errors_New ''sizeA'')))"
      using reach c by (simp add: reach_defs and_then_def)
    then show "Syevd k (Inr pars) ind A W h =
        \<lparr>returned = Return (Some (errors_New ''sizeA'')), heap_after = h,
         dsyevd_calls = []\<rparr>"
      by (simp add: Syevd_def)
  }
  {
    assume exact: "sint (NumElements A) =
        sint (OffsetA ind') + (sint (N ind') - 1) * sint (LDa ind') + sint (N ind')"
    then have "sint (OffsetA ind') + (sint (N ind') - 1) * sint (LDa ind') + sint (N ind')
        < 2 ^ 63"
      using sint_lt [of "NumElements A"] by simp
    with a n l have "sint (OffsetA ind' + (N ind' - 1) * LDa ind' + N ind') =
        sint (OffsetA ind') + (sint (N ind') - 1) * sint (LDa ind') + sint (N ind')"
      by (intro required_size_exact) auto
    with exact show c: "checkSizeA A ind' = Inr ind'"
      by (simp add: checkSizeA_def lt_def)
    have "reach_offsetW_check A ind = Inr ind'"
      using reach c by (simp add: reach_offsetW_check_def and_then_def)
    then show "returned (Syevd k (Inr pars) ind A W h) \<noteq>
        Return (Some (errors_New ''sizeA''))"
      by (rule passed_sizeA_returned)
  }
qed

lemma diag3_offset1_reach:
  "reach_sizeA_check diag3 (default_ind\<lparr>OffsetA := 1\<rparr>) =
     Inr \<lparr>N = 3, LDa = 3, OffsetA = 1, OffsetW = 0\<rparr>"
  by (simp add: reach_defs check_defs diag3_def default_ind_def)

lemma diag3_default_reach:
  "reach_sizeA_check diag3 default_ind = Inr \<lparr>N = 3, LDa = 3, OffsetA = 0, OffsetW = 0\<rparr>"
  by (simp add: reach_defs check_defs diag3_def default_ind_def)

lemma diag3_buffer_count: "buffer_count (NumElements diag3)"
  by (simp add: buffer_count_def diag3_def)

theorem matrix_size_bound_inclusive_witness:
  "buffer_count (NumElements diag3) \<and>
   Syevd diag_kernel (Inr default_pars) (default_ind\<lparr>OffsetA := 1\<rparr>) diag3 vec3
     example_heap =
     \<lparr>returned = Return (Some (errors_New ''sizeA'')), heap_after = example_heap,
      dsyevd_calls = []\<rparr> \<and>
   checkSizeA diag3 \<lparr>N = 3, LDa = 3, OffsetA = 0, OffsetW = 0\<rparr> =
     Inr \<lparr>N = 3, LDa = 3, OffsetA = 0, OffsetW = 0\<rparr> \<and>
   returned (Syevd diag_kernel (Inr default_pars) default_ind diag3 vec3 example_heap) \<noteq>
     Return (Some (errors_New ''sizeA''))"
proof -
  have n: "1 \<le> sint (3 :: go_int)" by simp
  from
    matrix_size_bound_inclusive [OF diag3_offset1_reach _ diag3_buffer_count,
      of diag_kernel default_pars vec3 example_heap]
    matrix_size_bound_inclusive [OF diag3_default_reach _ diag3_buffer_count,
      of diag_kernel default_pars vec3 example_heap]
    n diag3_buffer_count
  show ?thesis by (simp add: diag3_def)
qed

text \<open>
  Away from that boundary the machine's sum can differ from the integers'.  For the
  \<open>3 \<times> 3\<close> matrix of nine elements with \<open>n = 3\<close> and \<open>ldA = 2^62\<close>, the product
  \<open>(n-1)*ldA\<close> wraps around to the smallest \<open>int\<close>: every check passes and the kernel
  is called with that stride.
\<close>

lemma size_check_wraps_around:
  "dsyevd_calls (Syevd (status_kernel 0) (Inr default_pars)
      (default_ind\<lparr>N := 3, LDa := 4611686018427387904\<rparr>) diag3 vec3 example_heap) =
     [(''N'', ''L'', 3, (0, 0), 4611686018427387904, (1, 0))]"
  by (simp add: Syevd_def reach_defs check_defs example_defs dispatch_def slice_from_def)

section \<open>What the checks establish\<close>

lemma reach_dispatch_facts:
  assumes "reach_dispatch A W ind = Inr ind'"
  shows "\<not> lt (OffsetA ind) 0" and "\<not> lt (OffsetW ind) 0" and "N ind' \<noteq> 0"
  using assms
  by (auto simp: reach_defs check_defs Let_def split: if_splits sum.splits)

lemma reach_offsetA_check_offsets:
  assumes "reach_offsetA_check A ind = Inr ind'"
  shows "OffsetA ind' = OffsetA ind" and "OffsetW ind' = OffsetW ind"
  using assms
  by (auto simp: reach_defs check_defs Let_def split: if_splits sum.splits)

section \<open>Complex matrices\<close>

text \<open>
  Claim C3, as stated, fails: the type switch is the last step of \<open>Syevd\<close>, not the
  first.  For an empty complex matrix the call returns \<open>nil\<close> at line 58.
\<close>

theorem empty_complex_matrix_succeeds:
  "dyn_type empty_complex = ComplexMatrix \<and>
   Syevd diag_kernel (Inr default_pars) default_ind empty_complex vec3 example_heap =
     \<lparr>returned = Return None, heap_after = example_heap, dsyevd_calls = []\<rparr>"
  by (simp add: Syevd_def reach_defs check_defs empty_complex_def default_ind_def)

text \<open>
  Claim C3, amended.  For every complex matrix the kernel is not called and the heap is
  left as it was; and once \<open>GetParameters\<close> has accepted the options and all the
  checks of lines 51--80 have passed (so the order is not zero), the call fails with
  \<open>Not a complex function\<close>.
\<close>

theorem complex_input_rejected_after_validation:
  assumes "dyn_type A = ComplexMatrix"
  shows "dsyevd_calls (Syevd k gp ind A W h) = [] \<and>
         heap_after (Syevd k gp ind A W h) = h \<and>
         (gp = Inr pars \<and> reach_dispatch A W ind = Inr ind' \<longrightarrow>
            returned (Syevd k gp ind A W h) =
              Return (Some (errors_New ''Not a complex function'')))"
  using assms
  by (auto simp: Syevd_def dispatch_def split: sum.splits)

lemma complex3_reach:
  "reach_dispatch complex3 vec3 default_ind =
     Inr \<lparr>N = 3, LDa = 3, OffsetA = 0, OffsetW = 0\<rparr>"
  by (simp add: reach_defs check_defs complex3_def vec3_def default_ind_def)

theorem complex_input_rejected_after_validation_witness:
  "dsyevd_calls (Syevd diag_kernel (Inr default_pars) default_ind complex3 vec3 example_heap)
     = [] \<and>
   heap_after (Syevd diag_kernel (Inr default_pars) default_ind complex3 vec3 example_heap)
     = example_heap \<and>
   returned (Syevd diag_kernel (Inr default_pars) default_ind complex3 vec3 example_heap) =
     Return (Some (errors_New ''Not a complex function''))"
  using complex_input_rejected_after_validation [of complex3 diag_kernel "Inr default_pars"
      default_ind vec3 example_heap default_pars
      "\<lparr>N = 3, LDa = 3, OffsetA = 0, OffsetW = 0\<rparr>"]
    complex3_reach
  by (simp add: complex3_def)

section \<open>Negative offsets\<close>

text \<open>
  Claim C4, as stated, fails: the offsets are checked after the return for order zero.
  With \<open>offsetA = -1\<close> on an empty matrix the call returns \<open>nil\<close>.
\<close>

theorem negative_offset_on_empty_matrix_succeeds:
  "lt (OffsetA (default_ind\<lparr>OffsetA := - 1\<rparr>)) 0 \<and>
   Syevd diag_kernel (Inr default_pars) (default_ind\<lparr>OffsetA := - 1\<rparr>) empty_real vec3
     example_heap =
     \<lparr>returned = Return None, heap_after = example_heap, dsyevd_calls = []\<rparr>"
  by (simp add: Syevd_def reach_defs check_defs empty_real_def default_ind_def)

text \<open>
  Claim C4, amended.  For every call with \<open>offsetA < 0\<close> or \<open>offsetW < 0\<close> the kernel is
  not called and the heap is left as it was.  If moreover \<open>GetParameters\<close> has accepted
  the options and the call reaches the offset check of line 66 (the checks of lines
  51--65 have passed), it fails with one of the range errors \<open>offsetA\<close>, \<open>sizeA\<close>,
  \<open>offsetW\<close>; with \<open>offsetA\<close> when \<open>offsetA < 0\<close>.
\<close>

theorem negative_offset_rejected:
  assumes neg: "lt (OffsetA ind) 0 \<or> lt (OffsetW ind) 0"
  shows "dsyevd_calls (Syevd k gp ind A W h) = [] \<and>
         heap_after (Syevd k gp ind A W h) = h \<and>
         (gp = Inr pars \<and> reach_offsetA_check A ind = Inr ind' \<longrightarrow>
            (returned (Syevd k gp ind A W h) = Return (Some (errors_New ''offsetA'')) \<or>
             returned (Syevd k gp ind A W h) = Return (Some (errors_New ''sizeA'')) \<or>
             returned (Syevd k gp ind A W h) = Return (Some (errors_New ''offsetW''))) \<and>
            (lt (OffsetA ind) 0 \<longrightarrow>
               returned (Syevd k gp ind A W h) = Return (Some (errors_New ''offsetA''))))"
proof (intro conjI impI)
  have ended: "\<exists>out. reach_dispatch A W ind = Inl out"
    using neg reach_dispatch_facts(1,2) [of A W ind] by (cases "reach_dispatch A W ind") auto
  then show c: "dsyevd_calls (Syevd k gp ind A W h) = []"
    by (auto simp: Syevd_def split: sum.splits)
  then show "heap_after (Syevd k gp ind A W h) = h" by (rule Syevd_no_call_heap)
  {
    assume r: "gp = Inr pars \<and> reach_offsetA_check A ind = Inr ind'"
    then have rr: "reach_offsetA_check A ind = Inr ind'" by simp
    note offs = reach_offsetA_check_offsets [OF rr]
    show "returned (Syevd k gp ind A W h) = Return (Some (errors_New ''offsetA'')) \<or>
          returned (Syevd k gp ind A W h) = Return (Some (errors_New ''sizeA'')) \<or>
          returned (Syevd k gp ind A W h) = Return (Some (errors_New ''offsetW''))"
      using r neg offs
      by (auto simp: Syevd_def reach_dispatch_def reach_sizeW_check_def
          reach_offsetW_check_def reach_sizeA_check_def and_then_def checkOffsetA_def
          checkSizeA_def checkOffsetW_def Let_def split: sum.splits if_splits)
    {
      assume "lt (OffsetA ind) 0"
      then show "returned (Syevd k gp ind A W h) = Return (Some (errors_New ''offsetA''))"
        using r offs
        by (auto simp: Syevd_def reach_dispatch_def reach_sizeW_check_def
            reach_offsetW_check_def reach_sizeA_check_def and_then_def checkOffsetA_def)
    }
  }
qed

lemma diag3_negative_offsetA_reach:
  "reach_offsetA_check diag3 (default_ind\<lparr>OffsetA := - 1\<rparr>) =
     Inr \<lparr>N = 3, LDa = 3, OffsetA = - 1, OffsetW = 0\<rparr>"
  by (simp add: reach_defs check_defs diag3_def default_ind_def)

theorem negative_offset_rejected_witness:
  "lt (OffsetA (default_ind\<lparr>OffsetA := - 1\<rparr>)) 0 \<and>
   Syevd diag_kernel (Inr default_pars) (default_ind\<lparr>OffsetA := - 1\<rparr>) diag3 vec3
     example_heap =
     \<lparr>returned = Return (Some (errors_New ''offsetA'')), heap_after = example_heap,
      dsyevd_calls = []\<rparr>"
proof -
  have neg: "lt (OffsetA (default_ind\<lparr>OffsetA := - 1\<rparr>)) 0"
    by (simp add: default_ind_def lt_def)
  then have "lt (OffsetA (default_ind\<lparr>OffsetA := - 1\<rparr>)) 0 \<or>
      lt (OffsetW (default_ind\<lparr>OffsetA := - 1\<rparr>)) 0" ..
  from negative_offset_rejected [OF this, of diag_kernel "Inr default_pars" diag3 vec3
      example_heap default_pars "\<lparr>N = 3, LDa = 3, OffsetA = - 1, OffsetW = 0\<rparr>"]
    diag3_negative_offsetA_reach neg
  show ?thesis by (simp add: exit.equality)
qed

section \<open>Order zero\<close>

text \<open>
  Claim C5, as stated, fails: when the order is defaulted, the matrix must be square
  before the order is compared with zero.  A matrix with no rows and three columns has
  its order defaulted to zero rows, and the call fails with \<open>A not square\<close>.
\<close>

theorem zero_rows_not_square_fails:
  "lt (N default_ind) 0 \<and> Rows flat03 = 0 \<and>
   Syevd diag_kernel (Inr default_pars) default_ind flat03 vec3 example_heap =
     \<lparr>returned = Return (Some (errors_New ''A not square'')), heap_after = example_heap,
      dsyevd_calls = []\<rparr>"
  by (simp add: Syevd_def reach_defs check_defs flat03_def default_ind_def)

text \<open>
  Claim C5, amended.  For every call whose options \<open>GetParameters\<close> accepts and whose
  order is zero, either given as zero or defaulted from a matrix with no rows and no
  columns, \<open>Syevd\<close> returns \<open>nil\<close>, calls no kernel and leaves the heap as it was.
\<close>

theorem empty_problem_succeeds:
  assumes "N ind = 0 \<or> (lt (N ind) 0 \<and> Rows A = 0 \<and> Cols A = 0)"
  shows "Syevd k (Inr pars) ind A W h =
           \<lparr>returned = Return None, heap_after = h, dsyevd_calls = []\<rparr>"
proof -
  have "reach_dispatch A W ind = Inl (Return None)"
    using assms by (auto simp: reach_defs check_defs)
  then show ?thesis by (simp add: Syevd_def)
qed

theorem empty_problem_succeeds_witness:
  "Syevd diag_kernel (Inr default_pars) (default_ind\<lparr>N := 0\<rparr>) diag3 vec3 example_heap =
     \<lparr>returned = Return None, heap_after = example_heap, dsyevd_calls = []\<rparr> \<and>
   Syevd diag_kernel (Inr default_pars) default_ind empty_real vec3 example_heap =
     \<lparr>returned = Return None, heap_after = example_heap, dsyevd_calls = []\<rparr>"
  using
    empty_problem_succeeds [of "default_ind\<lparr>N := 0\<rparr>" diag3 diag_kernel default_pars vec3
      example_heap]
    empty_problem_succeeds [of default_ind empty_real diag_kernel default_pars vec3
      example_heap]
  by (simp add: default_ind_def empty_real_def lt_def)

section \<open>The default order and the squareness check\<close>

text \<open>
  Claim C6, as stated, fails: the error of \<open>GetParameters\<close> is returned before the
  order is looked at (lines 46--49), so a call on a matrix that is not square, with the
  order left to its default, can fail with another error than \<open>A not square\<close>.
\<close>

theorem rejected_options_not_square:
  "lt (N default_ind) 0 \<and> Rows wide23 \<noteq> Cols wide23 \<and>
   Syevd diag_kernel (Inl (errors_New ''illegal option'')) default_ind wide23 vec3
     example_heap =
     \<lparr>returned = Return (Some (errors_New ''illegal option'')), heap_after = example_heap,
      dsyevd_calls = []\<rparr>"
  by (simp add: Syevd_def wide23_def default_ind_def lt_def)

text \<open>
  Claim C6, amended.  Let the order be left to its default (negative).  If the matrix is
  not square, the kernel is not called, and when \<open>GetParameters\<close> has accepted the
  options the call fails with \<open>A not square\<close>, the heap left as it was.  If the matrix
  is square, the order is set to its number of rows: the call goes on as the call with
  \<open>n = Rows A\<close> does.
\<close>

theorem default_order_square_check:
  assumes "lt (N ind) 0"
  shows "(Rows A \<noteq> Cols A \<longrightarrow>
            dsyevd_calls (Syevd k gp ind A W h) = [] \<and>
            Syevd k (Inr pars) ind A W h =
              \<lparr>returned = Return (Some (errors_New ''A not square'')), heap_after = h,
               dsyevd_calls = []\<rparr>)
       \<and> (Rows A = Cols A \<longrightarrow>
            defaultN A ind = Inr (ind\<lparr>N := Rows A\<rparr>) \<and>
            Syevd k gp ind A W h = Syevd k gp (ind\<lparr>N := Rows A\<rparr>) A W h)"
proof (intro conjI impI)
  {
    assume ns: "Rows A \<noteq> Cols A"
    then have r: "reach_dispatch A W ind = Inl (Return (Some (errors_New ''A not square'')))"
      using assms by (simp add: reach_defs and_then_def defaultN_def)
    then show "dsyevd_calls (Syevd k gp ind A W h) = []"
      by (simp add: Syevd_def split: sum.splits)
    from r show "Syevd k (Inr pars) ind A W h =
        \<lparr>returned = Return (Some (errors_New ''A not square'')), heap_after = h,
         dsyevd_calls = []\<rparr>"
      by (simp add: Syevd_def)
  }
  {
    assume sq: "Rows A = Cols A"
    then show d: "defaultN A ind = Inr (ind\<lparr>N := Rows A\<rparr>)"
      using assms by (simp add: defaultN_def)
    have "defaultN A (ind\<lparr>N := Rows A\<rparr>) = Inr (ind\<lparr>N := Rows A\<rparr>)"
      using sq by (simp add: defaultN_def)
    with d have "reach_dispatch A W ind = reach_dispatch A W (ind\<lparr>N := Rows A\<rparr>)"
      by (simp add: reach_defs)
    then show "Syevd k gp ind A W h = Syevd k gp (ind\<lparr>N := Rows A\<rparr>) A W h"
      by (simp add: Syevd_def split: sum.splits)
  }
qed

theorem default_order_square_check_witness:
  "lt (N default_ind) 0 \<and>
   Syevd diag_kernel (Inr default_pars) default_ind wide23 vec3 example_heap =
     \<lparr>returned = Return (Some (errors_New ''A not square'')), heap_after = example_heap,
      dsyevd_calls = []\<rparr> \<and>
   defaultN diag3 default_ind = Inr (default_ind\<lparr>N := 3\<rparr>) \<and>
   Syevd diag_kernel (Inr default_pars) default_ind diag3 vec3 example_heap =
     Syevd diag_kernel (Inr default_pars) (default_ind\<lparr>N := 3\<rparr>) diag3 vec3 example_heap"
proof -
  have neg: "lt (N default_ind) 0" by (simp add: default_ind_def lt_def)
  from
    default_order_square_check [OF neg, of wide23 diag_kernel "Inr default_pars" vec3
      example_heap default_pars]
    default_order_square_check [OF neg, of diag3 diag_kernel "Inr default_pars" vec3
      example_heap default_pars]
    neg
  show ?thesis by (simp add: wide23_def diag3_def)
qed

section \<open>The leading dimension\<close>

text \<open>
  Claim C7, as stated, fails: the leading dimension is checked after the return for order
  zero.  With \<open>n = 0\<close> and \<open>ldA = -1\<close> the leading dimension is below \<open>max(1, n)\<close>, and
  the call returns \<open>nil\<close>.
\<close>

theorem small_leading_dimension_order_zero_succeeds:
  "lt (LDa (default_ind\<lparr>N := 0, LDa := - 1\<rparr>))
      (max_int 1 (N (default_ind\<lparr>N := 0, LDa := - 1\<rparr>))) \<and>
   Syevd diag_kernel (Inr default_pars) (default_ind\<lparr>N := 0, LDa := - 1\<rparr>) diag3 vec3
     example_heap =
     \<lparr>returned = Return None, heap_after = example_heap, dsyevd_calls = []\<rparr>"
  by (simp add: Syevd_def reach_defs check_defs default_ind_def)

text \<open>
  Claim C7, amended.  Let the call reach the check of the leading dimension (line 63):
  the order, defaulted if need be, passed the squareness check and is not zero.  Then the
  leading dimension is \<open>max(1, Rows A)\<close> if it was given as zero and as given otherwise;
  and if it is less than \<open>max(1, n)\<close> and \<open>GetParameters\<close> has accepted the options,
  the call fails with \<open>lda\<close>, with no kernel call and the heap left as it was.
\<close>

theorem leading_dimension_check:
  assumes "reach_LDa_check A ind = Inr ind'"
  shows "LDa ind' = (if LDa ind = 0 then max_int 1 (Rows A) else LDa ind) \<and>
         (lt (LDa ind') (max_int 1 (N ind')) \<longrightarrow>
            Syevd k (Inr pars) ind A W h =
              \<lparr>returned = Return (Some (errors_New ''lda'')), heap_after = h,
               dsyevd_calls = []\<rparr>)"
proof (intro conjI impI)
  show "LDa ind' = (if LDa ind = 0 then max_int 1 (Rows A) else LDa ind)"
    using assms
    by (auto simp: reach_LDa_check_def and_then_def defaultN_def returnIfEmpty_def
        defaultLDa_def Let_def split: if_splits sum.splits)
  assume "lt (LDa ind') (max_int 1 (N ind'))"
  then have "reach_dispatch A W ind = Inl (Return (Some (errors_New ''lda'')))"
    using assms by (simp add: reach_defs and_then_def checkLDa_def)
  then show "Syevd k (Inr pars) ind A W h =
      \<lparr>returned = Return (Some (errors_New ''lda'')), heap_after = h, dsyevd_calls = []\<rparr>"
    by (simp add: Syevd_def)
qed

lemma diag3_default_LDa_reach:
  "reach_LDa_check diag3 default_ind = Inr \<lparr>N = 3, LDa = 3, OffsetA = 0, OffsetW = 0\<rparr>"
  by (simp add: reach_defs check_defs diag3_def default_ind_def)

lemma diag3_small_LDa_reach:
  "reach_LDa_check diag3 (default_ind\<lparr>LDa := 2\<rparr>) =
     Inr \<lparr>N = 3, LDa = 2, OffsetA = 0, OffsetW = 0\<rparr>"
  by (simp add: reach_defs check_defs diag3_def default_ind_def)

theorem leading_dimension_check_witness:
  "LDa \<lparr>N = 3, LDa = 3, OffsetA = 0, OffsetW = 0\<rparr> = max_int 1 (Rows diag3) \<and>
   lt (LDa \<lparr>N = 3, LDa = 2, OffsetA = 0, OffsetW = 0\<rparr>)
      (max_int 1 (N \<lparr>N = 3, LDa = 2, OffsetA = 0, OffsetW = 0\<rparr>)) \<and>
   Syevd diag_kernel (Inr default_pars) (default_ind\<lparr>LDa := 2\<rparr>) diag3 vec3 example_heap =
     \<lparr>returned = Return (Some (errors_New ''lda'')), heap_after = example_heap,
      dsyevd_calls = []\<rparr>"
  using
    leading_dimension_check [OF diag3_default_LDa_reach,
      of diag_kernel default_pars vec3 example_heap]
    leading_dimension_check [OF diag3_small_LDa_reach,
      of diag_kernel default_pars vec3 example_heap]
  by (simp add: default_ind_def lt_def max_int_def)

section \<open>A matrix of another type\<close>

text \<open>
  Claim C10.  The type switch has no default case.  For a matrix that is neither a
  \<open>FloatMatrix\<close> nor a \<open>ComplexMatrix\<close>, a call whose options are accepted and that
  passes every check (so its order is not zero) returns \<open>nil\<close>, calls no kernel and
  leaves the heap as it was.
\<close>

theorem unknown_matrix_type_is_no_op:
  assumes "dyn_type A = OtherMatrix" and "reach_dispatch A W ind = Inr ind'"
  shows "Syevd k (Inr pars) ind A W h =
           \<lparr>returned = Return None, heap_after = h, dsyevd_calls = []\<rparr>"
  using assms by (simp add: Syevd_def dispatch_def)

lemma other3_reach:
  "reach_dispatch other3 vec3 default_ind =
     Inr \<lparr>N = 3, LDa = 3, OffsetA = 0, OffsetW = 0\<rparr>"
  by (simp add: reach_defs check_defs other3_def vec3_def default_ind_def)

theorem unknown_matrix_type_is_no_op_witness:
  "dyn_type other3 = OtherMatrix \<and>
   1 \<le> sint (N \<lparr>N = 3, LDa = 3, OffsetA = 0, OffsetW = 0\<rparr>) \<and>
   Syevd diag_kernel (Inr default_pars) default_ind other3 vec3 example_heap =
     \<lparr>returned = Return None, heap_after = example_heap, dsyevd_calls = []\<rparr>"
proof -
  have t: "dyn_type other3 = OtherMatrix" by (simp add: other3_def)
  from unknown_matrix_type_is_no_op [OF t other3_reach,
      of diag_kernel default_pars example_heap] t
  show ?thesis by simp
qed

section \<open>The status of the kernel\<close>

lemma dispatch_call_status:
  assumes "dsyevd_calls (dispatch k pars ind A W h) \<noteq> []"
  shows "\<exists>c. dsyevd_calls (dispatch k pars ind A W h) = [c] \<and>
             returned (dispatch k pars ind A W h) =
               (if kernel_status k h c = 0 then Return None
                else Return (Some (errors_New ''Syevd call error'')))"
proof -
  from assms have real: "dyn_type A = FloatMatrix"
    by (cases "dyn_type A") (auto simp: dispatch_def)
  from assms real obtain wa where wa: "slice_from h (FloatArray A) (OffsetA ind) = Some wa"
    by (cases "slice_from h (FloatArray A) (OffsetA ind)") (auto simp: dispatch_def)
  from assms real wa obtain ww where ww: "slice_from h (FloatArray W) (OffsetW ind) = Some ww"
    by (cases "slice_from h (FloatArray W) (OffsetW ind)") (auto simp: dispatch_def)
  let ?c = "(ParamString (Jobz pars), ParamString (Uplo pars), N ind, wa, LDa ind, ww)"
  have "dsyevd_calls (dispatch k pars ind A W h) = [?c]"
    using real wa ww by (simp add: dispatch_def Let_def split: prod.splits)
  moreover have "returned (dispatch k pars ind A W h) =
      (if kernel_status k h ?c = 0 then Return None
       else Return (Some (errors_New ''Syevd call error'')))"
    using real wa ww by (simp add: dispatch_def Let_def kernel_status_def split: prod.splits)
  ultimately show ?thesis by blast
qed

text \<open>
  Claim C8, as stated, fails in its last part: the error returned for a nonzero status
  is \<open>errors.New("Syevd call error")\<close>, whatever the status.  The two calls below differ
  only in the status the kernel reports, 1 and 2, and leave the same result.
\<close>

theorem kernel_error_hides_status:
  "dsyevd_calls (Syevd (status_kernel 1) (Inr default_pars) default_ind diag3 vec3 example_heap)
     = [(''N'', ''L'', 3, (0, 0), 3, (1, 0))] \<and>
   kernel_status (status_kernel 1) example_heap (''N'', ''L'', 3, (0, 0), 3, (1, 0)) = 1 \<and>
   kernel_status (status_kernel 2) example_heap (''N'', ''L'', 3, (0, 0), 3, (1, 0)) = 2 \<and>
   Syevd (status_kernel 1) (Inr default_pars) default_ind diag3 vec3 example_heap =
   Syevd (status_kernel 2) (Inr default_pars) default_ind diag3 vec3 example_heap"
  by (simp add: Syevd_def reach_defs check_defs example_defs dispatch_def slice_from_def
      kernel_status_def)

text \<open>
  Claim C8, amended.  Whenever the kernel is called, it is called once, and \<open>Syevd\<close>
  returns \<open>nil\<close> exactly when the status of that call is 0; for every other status it
  returns the one error \<open>Syevd call error\<close>, which does not carry the status.
\<close>

theorem kernel_status_mapping:
  assumes "dsyevd_calls (Syevd k gp ind A W h) \<noteq> []"
  shows "\<exists>c. dsyevd_calls (Syevd k gp ind A W h) = [c] \<and>
             returned (Syevd k gp ind A W h) =
               (if kernel_status k h c = 0 then Return None
                else Return (Some (errors_New ''Syevd call error'')))"
proof -
  from assms obtain pars ind' where "gp = Inr pars" and "reach_dispatch A W ind = Inr ind'"
    by (auto simp: Syevd_def split: sum.splits)
  then have "Syevd k gp ind A W h = dispatch k pars ind' A W h"
    by (simp add: Syevd_def)
  with assms dispatch_call_status [of k pars ind' A W h] show ?thesis by simp
qed

theorem kernel_status_mapping_witness:
  "dsyevd_calls (Syevd (status_kernel 5) (Inr default_pars) default_ind diag3 vec3 example_heap)
     = [(''N'', ''L'', 3, (0, 0), 3, (1, 0))] \<and>
   kernel_status (status_kernel 5) example_heap (''N'', ''L'', 3, (0, 0), 3, (1, 0)) = 5 \<and>
   returned (Syevd (status_kernel 5) (Inr default_pars) default_ind diag3 vec3 example_heap) =
     Return (Some (errors_New ''Syevd call error'')) \<and>
   kernel_status (status_kernel 0) example_heap (''N'', ''L'', 3, (0, 0), 3, (1, 0)) = 0 \<and>
   returned (Syevd (status_kernel 0) (Inr default_pars) default_ind diag3 vec3 example_heap) =
     Return None"
  using kernel_status_mapping [of "status_kernel 5" "Inr default_pars" default_ind diag3 vec3 example_heap]
    kernel_status_mapping [of "status_kernel 0" "Inr default_pars" default_ind diag3 vec3 example_heap]
  by (simp add: Syevd_def reach_defs check_defs example_defs dispatch_def slice_from_def
      kernel_status_def)

section \<open>Ascending eigenvalues\<close>

lemma length_store_window:
  "off + length d \<le> length xs \<Longrightarrow> length (store_window xs off d) = length xs"
  by (simp add: store_window_def)

lemma store_window_read:
  assumes "length d = k" and "off + k \<le> length xs"
  shows "take k (drop off (store_window xs off d)) = d"
  using assms by (simp add: store_window_def)

lemma diag_kernel_contract: "kernel_contract (\<le>) (diag_kernel :: ('e::linorder) kernel)"
proof -
  have asc: "successively (\<le>) (sort d)" for d :: "'e list"
    by (rule successively_if_sorted_wrt) simp
  show ?thesis
    unfolding kernel_contract_def diag_kernel_def Let_def window_contents_def
    by (auto simp: length_store_window store_window_read asc)
qed

lemma kernel_contractD:
  assumes "kernel_contract le k" and "k jobz uplo n wa lda ww h = (info, h')" and "info = 0"
  shows "nat (sint n) \<le> length (window_contents h' ww)"
    and "successively le (take (nat (sint n)) (window_contents h' ww))"
proof -
  from assms(1) have "\<forall>jobz uplo n wa lda ww h info h'.
      k jobz uplo n wa lda ww h = (info, h') \<longrightarrow> info = 0 \<longrightarrow>
        nat (sint n) \<le> length (window_contents h' ww) \<and>
        successively le (take (nat (sint n)) (window_contents h' ww))"
    by (simp add: kernel_contract_def split: prod.splits)
  with assms(2,3) show "nat (sint n) \<le> length (window_contents h' ww)"
    and "successively le (take (nat (sint n)) (window_contents h' ww))"
    by blast+
qed

lemma dispatch_success_window:
  assumes contract: "kernel_contract le k"
    and real: "dyn_type A = FloatMatrix"
    and ok: "returned (dispatch k pars ind A W h) = Return None"
  shows "nat (sint (N ind)) \<le>
           length (drop (nat (sint (OffsetW ind))) (heap_after (dispatch k pars ind A W h) (FloatArray W)))"
    and "successively le (take (nat (sint (N ind)))
           (drop (nat (sint (OffsetW ind))) (heap_after (dispatch k pars ind A W h) (FloatArray W))))"
proof -
  from ok real obtain wa where wa: "slice_from h (FloatArray A) (OffsetA ind) = Some wa"
    by (cases "slice_from h (FloatArray A) (OffsetA ind)") (auto simp: dispatch_def)
  from ok real wa have ww: "slice_from h (FloatArray W) (OffsetW ind) =
      Some (FloatArray W, nat (sint (OffsetW ind)))"
    by (cases "slice_from h (FloatArray W) (OffsetW ind)")
      (auto simp: dispatch_def slice_from_def split: if_splits)
  obtain info h' where call: "k (ParamString (Jobz pars)) (ParamString (Uplo pars)) (N ind) wa
      (LDa ind) (FloatArray W, nat (sint (OffsetW ind))) h = (info, h')"
    by (cases "k (ParamString (Jobz pars)) (ParamString (Uplo pars)) (N ind) wa
      (LDa ind) (FloatArray W, nat (sint (OffsetW ind))) h") auto
  from ok real wa ww call have info: "info = 0"
    and heap: "heap_after (dispatch k pars ind A W h) = h'"
    by (auto simp: dispatch_def Let_def split: if_splits)
  from kernel_contractD [OF contract call info] heap
  show "nat (sint (N ind)) \<le>
           length (drop (nat (sint (OffsetW ind))) (heap_after (dispatch k pars ind A W h) (FloatArray W)))"
    and "successively le (take (nat (sint (N ind)))
           (drop (nat (sint (OffsetW ind))) (heap_after (dispatch k pars ind A W h) (FloatArray W))))"
    by (simp_all add: window_contents_def)
qed

text \<open>
  Claim C9.  Let the kernel keep its contract, let the matrix be a \<open>FloatMatrix\<close>, and
  let the call pass every check with an order \<open>n \<ge> 1\<close> and return \<open>nil\<close>.  Then the
  backing store of the eigenvalue buffer has the cells \<open>offsetW, \<dots>, offsetW + n - 1\<close>,
  and each of them is at most the next: the window the kernel wrote is the slice of that
  store at \<open>offsetW\<close>.  This holds for either value of \<open>jobz\<close>, so for \<open>PJobNo\<close>
  (eigenvalues only) in particular.
\<close>

theorem eigenvalues_ascending:
  assumes contract: "kernel_contract le k"
    and real: "dyn_type A = FloatMatrix"
    and reach: "reach_dispatch A W ind = Inr ind'"
    and order: "1 \<le> sint (N ind')"
    and ok: "returned (Syevd k gp ind A W h) = Return None"
  shows "nat (sint (OffsetW ind')) + nat (sint (N ind')) \<le>
           length (heap_after (Syevd k gp ind A W h) (FloatArray W)) \<and>
         (\<forall>i. i + 1 < nat (sint (N ind')) \<longrightarrow>
            le (heap_after (Syevd k gp ind A W h) (FloatArray W) ! (nat (sint (OffsetW ind')) + i))
               (heap_after (Syevd k gp ind A W h) (FloatArray W)
                  ! (nat (sint (OffsetW ind')) + i + 1)))"
proof -
  from ok obtain pars where gp: "gp = Inr pars"
    by (cases gp) (auto simp: Syevd_def)
  with reach have S: "Syevd k gp ind A W h = dispatch k pars ind' A W h"
    by (simp add: Syevd_def)
  let ?buf = "heap_after (Syevd k gp ind A W h) (FloatArray W)"
  let ?off = "nat (sint (OffsetW ind'))"
  let ?n = "nat (sint (N ind'))"
  from dispatch_success_window [OF contract real, of pars ind' W h] ok S
  have len: "?n \<le> length (drop ?off ?buf)"
    and asc: "successively le (take ?n (drop ?off ?buf))"
    by simp_all
  from order have pos: "0 < ?n" by simp
  show ?thesis
  proof (intro conjI allI impI)
    from len pos show "?off + ?n \<le> length ?buf" by simp
    fix i assume i: "i + 1 < ?n"
    with len have "Suc i < length (take ?n (drop ?off ?buf))" by simp
    from successively_nth [OF asc this] i len
    show "le (?buf ! (?off + i)) (?buf ! (?off + i + 1))" by simp
  qed
qed

text \<open>The spec's scenario \<open>diag(3, 1, 2)\<close>, with the kernel that is exact on diagonals.\<close>

lemma diag3_reach:
  "reach_dispatch diag3 vec3 default_ind = Inr \<lparr>N = 3, LDa = 3, OffsetA = 0, OffsetW = 0\<rparr>"
  by (simp add: reach_defs check_defs diag3_def vec3_def default_ind_def)

lemma diag3_eigenvalues:
  "Syevd diag_kernel (Inr default_pars) default_ind diag3 vec3 example_heap =
     \<lparr>returned = Return None,
      heap_after = example_heap(1 := [1, 2, 3]),
      dsyevd_calls = [(''N'', ''L'', 3, (0, 0), 3, (1, 0))]\<rparr>"
proof -
  have "Syevd diag_kernel (Inr default_pars) default_ind diag3 vec3 example_heap =
      dispatch diag_kernel default_pars \<lparr>N = 3, LDa = 3, OffsetA = 0, OffsetW = 0\<rparr> diag3 vec3
        example_heap"
    by (simp add: Syevd_def diag3_reach)
  also have "\<dots> = \<lparr>returned = Return None, heap_after = example_heap(1 := [1, 2, 3]),
      dsyevd_calls = [(''N'', ''L'', 3, (0, 0), 3, (1, 0))]\<rparr>"
    by (simp add: dispatch_def diag3_def vec3_def default_pars_def example_heap_def
        slice_from_def diag_kernel_def store_window_def window_contents_def upt_rec)
  finally show ?thesis .
qed

theorem eigenvalues_ascending_witness:
  "returned (Syevd diag_kernel (Inr default_pars) default_ind diag3 vec3 example_heap) = Return None \<and>
   heap_after (Syevd diag_kernel (Inr default_pars) default_ind diag3 vec3 example_heap) 1 = [1, 2, 3] \<and>
   heap_after (Syevd diag_kernel (Inr default_pars) default_ind diag3 vec3 example_heap) 1 ! 0
     \<le> heap_after (Syevd diag_kernel (Inr default_pars) default_ind diag3 vec3 example_heap) 1 ! 1 \<and>
   heap_after (Syevd diag_kernel (Inr default_pars) default_ind diag3 vec3 example_heap) 1 ! 1
     \<le> heap_after (Syevd diag_kernel (Inr default_pars) default_ind diag3 vec3 example_heap) 1 ! 2"
proof -
  have real: "dyn_type diag3 = FloatMatrix" by (simp add: diag3_def)
  have order: "1 \<le> sint (N \<lparr>N = 3, LDa = 3, OffsetA = 0, OffsetW = 0\<rparr>)" by simp
  have ok: "returned (Syevd diag_kernel (Inr default_pars) default_ind diag3 vec3 example_heap)
      = Return None"
    by (simp add: diag3_eigenvalues)
  from eigenvalues_ascending [OF diag_kernel_contract real diag3_reach order ok]
  have "\<forall>i. i + 1 < 3 \<longrightarrow>
      heap_after (Syevd diag_kernel (Inr default_pars) default_ind diag3 vec3 example_heap) 1 ! i
      \<le> heap_after (Syevd diag_kernel (Inr default_pars) default_ind diag3 vec3 example_heap) 1 ! (i + 1)"
    by (simp add: vec3_def)
  from this [rule_format, of 0] this [rule_format, of 1] ok show ?thesis
    by (simp add: diag3_eigenvalues)
qed

end
